theory Spec2Isabelle
  imports Main
begin

section \<open>Shared data: callbacks, errors, notifications\<close>

text \<open>
  A JavaScript closure is opaque to the modules verified here: they store it, pass it on
  and call it. A closure is therefore a named value; what happens when it is called is a
  parameter of the functions that call it.
\<close>

datatype callback = Callback string

text \<open>
  The exceptions of the source: the \<open>TypeError\<close> the runtime raises when a property of
  \<open>undefined\<close> or \<open>null\<close> is read or when \<open>undefined\<close> is called, an exception thrown
  by a callback, and the rejection reason of a promise of a module outside these files.
\<close>

datatype error = TypeError | Thrown callback | Failure string

text \<open>
  \<open>INotificationAction\<close> and \<open>INotification\<close> (\<open>types/INotification\<close>), with the fields
  the source reads or writes. An optional field is an \<open>option\<close>; \<open>None\<close> is \<open>undefined\<close>.
\<close>

record notification_action =
  title :: string
  action :: callback

record notification =
  noti_id :: "string option"
  noti_type :: string
  message :: string
  replace :: "(string \<times> nat) list option"
  actions :: "notification_action list option"
  displayMS :: "nat option"

section \<open>The extension manager (extensions/extension\_manager/index.ts)\<close>

text \<open>
  \<open>IExtension\<close> (an installed extension) and \<open>IAvailableExtension\<close>, with the fields
  \<open>checkForUpdates\<close> reads. Mod ids are integer identifiers.
\<close>

record extension =
  ext_name :: string
  ext_modId :: "int option"
  ext_version :: string

record available_extension =
  name :: string
  modId :: "int option"
  version :: string

text \<open>
  \<open>state.session.extensions\<close>. \<open>installed\<close> is an object keyed by extension id; it is
  kept as an association list in the order \<open>Object.values\<close> enumerates it.
\<close>

record extensions_state =
  available :: "available_extension list"
  installed :: "(string \<times> extension) list"

text \<open>The store actions of \<open>./actions\<close> that this file dispatches.\<close>

datatype ext_action =
    SetAvailableExtensions "available_extension list"
  | SetExtensionsUpdate int
  | SetInstalledExtensions "(string \<times> extension) list"

text \<open>
  What the file does to the outside, in the order it does it: calls to the extension API,
  to the log, to the store and to \<open>downloadAndInstallExtension\<close>.
\<close>

datatype api_event =
    SendNotification notification
  | ShowErrorNotification string error
  | LogInfo string "string list"
  | DownloadAndInstallExtension available_extension
  | StoreDispatch ext_action

text \<open>
  The world of the extension manager: the store's \<open>session.extensions\<close>, the module's
  \<open>localState.reloadNecessary\<close>, and the calls made so far.
\<close>

record ext_world =
  extensions :: extensions_state
  reloadNecessary :: bool
  events :: "api_event list"

text \<open>
  What a call of \<open>downloadAndInstallExtension\<close> comes to, as \<open>Promise.map\<close> sees it:
  \<^item> \<open>Installed\<close>: it returns a promise that resolves;
  \<^item> \<open>Fails e\<close>: it throws \<open>e\<close>, or the promise it returns is already rejected with
    \<open>e\<close> when it returns;
  \<^item> \<open>FailsLater e t\<close>: it returns a pending promise that rejects with \<open>e\<close> later, at
    the time \<open>t\<close>.
\<close>

datatype install_outcome = Installed | Fails error | FailsLater error nat

text \<open>
  The modules this file calls and that are not part of it: \<open>fetchAvailableExtensions\<close>
  (its two arguments; it resolves with a time, which may be \<open>null\<close>, and a list, or
  rejects), \<open>downloadAndInstallExtension\<close> and the store's reducer for
  \<open>session.extensions\<close>.
\<close>

record ext_env =
  fetchAvailableExtensions ::
    "bool \<Rightarrow> bool \<Rightarrow> error + (int option \<times> available_extension list)"
  downloadAndInstallExtension :: "available_extension \<Rightarrow> install_outcome"
  sessionReducer :: "ext_action \<Rightarrow> extensions_state \<Rightarrow> extensions_state"

text \<open>
  The body of the \<open>reduce\<close> callback of \<open>checkForUpdates\<close> (lines 29 to 46): \<open>prev\<close> is
  the accumulator, \<open>ext\<close> the installed extension. \<open>find\<close> returns the first element
  of the array that satisfies the predicate.
\<close>

definition updateable_step ::
  "available_extension list \<Rightarrow> available_extension list \<Rightarrow> extension \<Rightarrow>
   available_extension list" where
  "updateable_step avail prev ext =
     (if ext_modId ext = None then prev
      else (case find (\<lambda>iter. modId iter = ext_modId ext) avail of
              None \<Rightarrow> prev
            | Some current \<Rightarrow>
                if version current = ext_version ext then prev
                else prev @ [current]))"

definition updateable :: "extensions_state \<Rightarrow> available_extension list" where
  "updateable s = foldl (updateable_step (available s)) [] (map snd (installed s))"

text \<open>
  The set of the claim as the specification words it: every available record whose mod
  id is that of an installed extension with a defined mod id and a different version.
\<close>

definition updateable_spec :: "extensions_state \<Rightarrow> available_extension list" where
  "updateable_spec s =
     filter (\<lambda>r. \<exists>ext \<in> set (map snd (installed s)).
                ext_modId ext \<noteq> None \<and> modId r = ext_modId ext \<and>
                version r \<noteq> ext_version ext)
       (available s)"

text \<open>The two notifications \<open>checkForUpdates\<close> sends.\<close>

definition updates_info :: "nat \<Rightarrow> notification" where
  "updates_info n =
     \<lparr> noti_id = Some ''extension-updates'', noti_type = ''info'',
       message = ''{{ count }} extensions will be updated'',
       replace = Some [(''count'', n)], actions = None, displayMS = None \<rparr>"

definition updates_success :: notification where
  "updates_success =
     \<lparr> noti_id = Some ''extension-updates'', noti_type = ''success'',
       message = ''Extensions updated, please restart to apply them'',
       replace = None,
       actions = Some [\<lparr> title = ''Restart now'', action = Callback ''relaunch'' \<rparr>],
       displayMS = None \<rparr>"

text \<open>
  \<open>Promise.map\<close> of bluebird on an array of plain values. It calls the mapper on the
  elements in order; once a call has thrown or returned an already rejected promise, the
  promise of \<open>Promise.map\<close> is rejected with that reason and the mapper is not called
  on the elements that follow. \<open>mapper_calls\<close> are the elements the mapper is called on.
\<close>

definition fails_at_once :: "install_outcome \<Rightarrow> bool" where
  "fails_at_once out = (case out of Fails e \<Rightarrow> True | _ \<Rightarrow> False)"

fun mapper_calls :: "('a \<Rightarrow> install_outcome) \<Rightarrow> 'a list \<Rightarrow> 'a list" where
  "mapper_calls f [] = []"
| "mapper_calls f (x # xs) = x # (if fails_at_once (f x) then [] else mapper_calls f xs)"

text \<open>
  Of the promises that reject later, the one that rejects first in time (of two with the
  same time, the one whose call came first): its time and reason.
\<close>

definition first_in_time :: "install_outcome list \<Rightarrow> (nat \<times> error) option" where
  "first_in_time outs =
     foldl (\<lambda>best out.
              case out of
                FailsLater e t \<Rightarrow>
                  (case best of
                     None \<Rightarrow> Some (t, e)
                   | Some (t', e') \<Rightarrow> if t < t' then Some (t, e) else best)
              | _ \<Rightarrow> best)
       None outs"

text \<open>
  The rejection of the promise of \<open>Promise.map\<close>: the reason of the first call that
  fails at once, or else of the mapped promise that rejects first in time; \<open>None\<close> when
  every mapped promise resolves, and then the promise of \<open>Promise.map\<close> resolves.
\<close>

definition map_rejection :: "('a \<Rightarrow> install_outcome) \<Rightarrow> 'a list \<Rightarrow> error option" where
  "map_rejection f xs =
     (case find (\<lambda>x. fails_at_once (f x)) xs of
        Some x \<Rightarrow> (case f x of Fails e \<Rightarrow> Some e | _ \<Rightarrow> None)
      | None \<Rightarrow> (case first_in_time (map f xs) of None \<Rightarrow> None | Some (t, e) \<Rightarrow> Some e))"

text \<open>
  \<open>checkForUpdates\<close>. The result is the state of the promise it returns (\<open>None\<close>:
  resolved, \<open>Some e\<close>: rejected with \<open>e\<close>) and the world afterwards. The \<open>then\<close>
  callback runs when the promise of \<open>Promise.map\<close> has resolved, and not when it is
  rejected.
\<close>

definition checkForUpdates :: "ext_env \<Rightarrow> ext_world \<Rightarrow> error option \<times> ext_world" where
  "checkForUpdates env w =
     (let upd = updateable (extensions w) in
      if length upd = 0 then (None, w)
      else
        let w1 = w\<lparr> events := events w @
                   [SendNotification (updates_info (length upd)),
                    LogInfo ''extensions can be updated''
                      (map (\<lambda>ext. name ext @ '' v'' @ version ext) upd)] @
                   map DownloadAndInstallExtension
                     (mapper_calls (downloadAndInstallExtension env) upd) \<rparr>
        in (case map_rejection (downloadAndInstallExtension env) upd of
              Some e \<Rightarrow> (Some e, w1)
            | None \<Rightarrow>
                (None, w1\<lparr> reloadNecessary := True,
                           events := events w1 @ [SendNotification updates_success] \<rparr>)))"

text \<open>\<open>api.store.dispatch\<close>: the call is recorded and the reducer applied.\<close>

definition store_dispatch :: "ext_env \<Rightarrow> ext_action \<Rightarrow> ext_world \<Rightarrow> ext_world" where
  "store_dispatch env a w =
     w\<lparr> extensions := sessionReducer env a (extensions w),
        events := events w @ [StoreDispatch a] \<rparr>"

text \<open>
  \<open>updateAvailableExtensions\<close>. The \<open>catch\<close> handler replaces a rejection by the value
  \<open>{ time: null, extensions: [] }\<close>; the \<open>then\<close> handler calls \<open>time.getTime()\<close>, which
  raises \<open>TypeError\<close> on \<open>null\<close> and so rejects the promise.
\<close>

definition updateAvailableExtensions ::
  "ext_env \<Rightarrow> bool \<Rightarrow> ext_world \<Rightarrow> error option \<times> ext_world" where
  "updateAvailableExtensions env force w =
     (let (w1, time, exts) =
            (case fetchAvailableExtensions env True force of
               Inl err \<Rightarrow>
                 (w\<lparr> events := events w @
                       [ShowErrorNotification ''Failed to fetch available extensions'' err] \<rparr>,
                  None, [])
             | Inr (t, es) \<Rightarrow> (w, t, es))
      in (case time of
            None \<Rightarrow> (Some TypeError, w1)
          | Some t \<Rightarrow>
              checkForUpdates env
                (store_dispatch env (SetAvailableExtensions exts)
                  (store_dispatch env (SetExtensionsUpdate t) w1))))"

section \<open>Notifications and dialogs (actions/notifications.ts)\<close>

subsection \<open>Data\<close>

text \<open>
  The notification that goes to the store: the JSON copy of the notification, which has
  no functions, with the process type added and each action reduced to the object
  \<open>{ title }\<close>, kept here as the title.
\<close>

record store_notification =
  sn_id :: string
  sn_type :: string
  sn_message :: string
  sn_replace :: "(string \<times> nat) list option"
  sn_actions :: "string list"
  sn_displayMS :: "nat option"
  sn_process :: string

text \<open>
  A dialog action (an element of \<open>DialogActions\<close>): its label, the optional flag
  \<open>default\<close> and the optional callback. The payload a dialog returns is opaque.
\<close>

type_synonym dialog_input = "string option"

record dialog_action =
  label :: string
  default :: "bool option"
  dialog_callback :: "callback option"

record dialog_result =
  result_action :: string
  result_input :: dialog_input

text \<open>The payload \<open>addDialog\<close> builds, and the four actions of the module.\<close>

record dialog_payload =
  dialog_id :: string
  dialog_type :: string
  dialog_title :: string
  dialog_content :: string
  defaultAction :: "string option"
  dialog_actions :: "string list"

datatype store_action =
    ADD_NOTIFICATION store_notification
  | STOP_NOTIFICATION string
  | SHOW_MODAL_DIALOG dialog_payload
  | DISMISS_MODAL_DIALOG string

text \<open>
  The function \<open>showDialog\<close> stores in \<open>DialogCallbacks\<close> closes over the dialog's
  actions and over \<open>resolve\<close> of the promise it returns.
\<close>

record dialog_closure =
  closure_actions :: "dialog_action list"
  closure_promise :: nat

text \<open>The arguments of the call to \<open>log\<close> in \<open>closeDialog\<close>.\<close>

record log_entry =
  log_level :: string
  log_message :: string
  log_id :: string
  log_actionKey :: string

text \<open>
  The state of the module in one process.
  \<^item> \<open>objs\<close>, \<open>next_obj\<close>: the notification objects on the heap, by reference; a new
    object takes the reference \<open>next_obj\<close>.
  \<^item> \<open>timers\<close>, \<open>notificationActions\<close>: the two per-process registries, keyed by
    notification id. They are plain objects read as maps: an id is taken not to be the
    name of a property every object inherits (\<open>constructor\<close>, \<open>toString\<close>).
  \<^item> \<open>timeouts\<close>, \<open>next_timer\<close>: the timeouts of the event loop that \<open>setTimeout\<close>
    created and that have neither fired nor been cleared, by timer handle, each with the
    notification id its callback dismisses and its delay.
  \<^item> \<open>shortid_calls\<close>: how many ids \<open>shortid\<close> has generated.
  \<^item> \<open>dialogCallbacks\<close>: the object behind \<open>DialogCallbacks.instance()\<close>.
  \<^item> \<open>promises\<close>, \<open>next_promise\<close>: the promises \<open>showDialog\<close> created, with the
    value of each one that has resolved.
  \<^item> \<open>dispatched\<close>, \<open>called\<close>, \<open>invoked\<close>, \<open>logged\<close>: in order, the actions
    dispatched, the calls of functions stored in \<open>DialogCallbacks\<close> (dialog id and
    arguments), the calls of callbacks of dialog actions (with their argument) and the log
    entries written.
\<close>

record noti_state =
  objs :: "nat \<rightharpoonup> notification"
  next_obj :: nat
  timers :: "string \<rightharpoonup> nat"
  notificationActions :: "string \<rightharpoonup> callback list"
  timeouts :: "nat \<rightharpoonup> string \<times> nat"
  next_timer :: nat
  shortid_calls :: nat
  dialogCallbacks :: "string \<rightharpoonup> dialog_closure"
  promises :: "nat \<rightharpoonup> dialog_result"
  next_promise :: nat
  dispatched :: "store_action list"
  called :: "(string \<times> string \<times> dialog_input) list"
  invoked :: "(callback \<times> dialog_input) list"
  logged :: "log_entry list"

text \<open>
  What a notification callback does with the function it is handed: it calls it some
  number of times while it runs, and then returns or throws.
\<close>

record behaviour =
  dismiss_calls :: nat
  throws :: bool

text \<open>
  What the module takes from outside: \<open>process.type\<close>, the ids \<open>shortid\<close> generates
  (the \<open>k\<close>-th call returns \<open>shortid k\<close>), and what the callbacks do when called.
\<close>

record env =
  process_type :: string
  shortid :: "nat \<Rightarrow> string"
  notification_behaviour :: "callback \<Rightarrow> behaviour"
  dialog_callback_throws :: "callback \<Rightarrow> dialog_input \<Rightarrow> bool"

subsection \<open>fireNotificationAction and the IPC handler\<close>

text \<open>\<open>xs[i]\<close> for a number \<open>i\<close>: \<open>undefined\<close> outside the array.\<close>

definition array_get :: "'a list \<Rightarrow> int \<Rightarrow> 'a option" where
  "array_get xs i = (if 0 \<le> i \<and> i < int (length xs) then Some (xs ! nat i) else None)"

text \<open>
  Calling \<open>func(dismiss)\<close>: \<open>dismiss\<close> acts on some state \<open>'s\<close> of its owner. The result
  is that state afterwards and whether the callback threw.
\<close>

definition run_callback :: "behaviour \<Rightarrow> ('s \<Rightarrow> 's) \<Rightarrow> 's \<Rightarrow> 's \<times> bool" where
  "run_callback b dismiss s = ((dismiss ^^ dismiss_calls b) s, throws b)"

datatype fire_event = Invoked callback | IpcSendSync string int

text \<open>
  The outcome of \<open>fireNotificationAction\<close>: the state \<open>dismiss\<close> acts on, the callbacks
  called and IPC messages sent, and the exception raised, if any.
\<close>

record 'u fire_result =
  fire_ui :: 'u
  fire_events :: "fire_event list"
  fire_error :: "error option"

text \<open>
  \<open>fireNotificationAction\<close> (lines 55 to 70). \<open>ipcRenderer\<close> is the import of that name
  from \<open>electron\<close>: \<open>None\<close> where it is \<open>undefined\<close>, and otherwise
  \<open>Some sendSync\<close>, with \<open>sendSync notiId action\<close> for
  \<open>ipcRenderer.sendSync('fire-notification-action', notiId, action)\<close>. Reading
  \<open>notificationActions[notiId][action]\<close> raises \<open>TypeError\<close> when
  \<open>notificationActions[notiId]\<close> is \<open>undefined\<close>, and so does \<open>ipcRenderer.sendSync\<close>
  when \<open>ipcRenderer\<close> is.
\<close>

definition fireNotificationAction ::
  "env \<Rightarrow> (string \<Rightarrow> int \<Rightarrow> bool) option \<Rightarrow> noti_state \<Rightarrow> string \<Rightarrow> string \<Rightarrow> int \<Rightarrow>
   ('u \<Rightarrow> 'u) \<Rightarrow> 'u \<Rightarrow> 'u fire_result" where
  "fireNotificationAction env ipcRenderer st notiId notiProcess act dismiss u =
     (if notiProcess = process_type env then
        (case notificationActions st notiId of
           None \<Rightarrow> \<lparr> fire_ui = u, fire_events = [], fire_error = Some TypeError \<rparr>
         | Some funcs \<Rightarrow>
             (case array_get funcs act of
                None \<Rightarrow> \<lparr> fire_ui = u, fire_events = [], fire_error = None \<rparr>
              | Some func \<Rightarrow>
                  let (u', threw) = run_callback (notification_behaviour env func) dismiss u
                  in \<lparr> fire_ui = u', fire_events = [Invoked func],
                       fire_error = (if threw then Some (Thrown func) else None) \<rparr>))
      else
        (case ipcRenderer of
           None \<Rightarrow> \<lparr> fire_ui = u, fire_events = [], fire_error = Some TypeError \<rparr>
         | Some sendSync \<Rightarrow>
             let res = sendSync notiId act
             in \<lparr> fire_ui = (if res then dismiss u else u),
                  fire_events = [IpcSendSync notiId act], fire_error = None \<rparr>))"

text \<open>
  The event of a synchronous IPC message. Electron defines \<open>returnValue\<close> on it as a
  property with a setter and no value of its own: an assignment sends the value to the
  waiting renderer as the reply, and a synchronous message has one reply, so an
  assignment after the first sends nothing. \<open>assigned\<close> are the values assigned, in
  order; \<open>reply\<close> is the reply sent, if any.
\<close>

record ipc_event =
  assigned :: "bool list"
  reply :: "bool option"

definition set_returnValue :: "bool \<Rightarrow> ipc_event \<Rightarrow> ipc_event" where
  "set_returnValue v e =
     e\<lparr> assigned := assigned e @ [v],
        reply := (case reply e of None \<Rightarrow> Some v | Some r \<Rightarrow> Some r) \<rparr>"

text \<open>
  The handler the main process registers for \<open>'fire-notification-action'\<close> (lines 73 to
  82), on the main process's state: the event afterwards, the callbacks it called, and the
  exception it raised, if any.
\<close>

definition on_fire_notification_action ::
  "env \<Rightarrow> noti_state \<Rightarrow> string \<Rightarrow> int \<Rightarrow> ipc_event \<times> fire_event list \<times> error option" where
  "on_fire_notification_action env st notiId act =
     (let event = set_returnValue False \<lparr> assigned = [], reply = None \<rparr> in
      case notificationActions st notiId of
        None \<Rightarrow> (event, [], Some TypeError)
      | Some funcs \<Rightarrow>
          (case array_get funcs act of
             None \<Rightarrow> (event, [], None)
           | Some func \<Rightarrow>
               let (event', threw) =
                     run_callback (notification_behaviour env func)
                       (set_returnValue True) event
               in (event', [Invoked func], if threw then Some (Thrown func) else None)))"

text \<open>
  The synchronous call across the two processes: the renderer's \<open>sendSync\<close> runs the
  handler in the main process (its environment and state are \<open>menv\<close> and \<open>main\<close>) and
  returns the reply. The result here is \<open>res\<close> as line 66 tests it: whether the reply
  is \<open>true\<close>.
\<close>

definition ipc_sendSync :: "env \<Rightarrow> noti_state \<Rightarrow> string \<Rightarrow> int \<Rightarrow> bool" where
  "ipc_sendSync menv main notiId act =
     (reply (fst (on_fire_notification_action menv main notiId act)) = Some True)"

text \<open>
  The import \<open>ipcRenderer\<close> in a process with the environment \<open>env\<close>: Electron
  provides it in a renderer process, where it reaches the main process, and leaves it
  \<open>undefined\<close> in the main process (as it leaves \<open>ipcMain\<close> in a renderer, which line
  72 tests).
\<close>

definition ipcRenderer_of ::
  "env \<Rightarrow> env \<Rightarrow> noti_state \<Rightarrow> (string \<Rightarrow> int \<Rightarrow> bool) option" where
  "ipcRenderer_of env menv main =
     (if process_type env = ''renderer'' then Some (ipc_sendSync menv main) else None)"

subsection \<open>addNotification and dismissNotification\<close>

definition dispatch :: "store_action \<Rightarrow> noti_state \<Rightarrow> noti_state" where
  "dispatch a st = st\<lparr> dispatched := dispatched st @ [a] \<rparr>"

text \<open>\<open>dismissNotification\<close> (lines 126 to 133); the promise executor runs at once.\<close>

definition dismissNotification :: "string \<Rightarrow> noti_state \<Rightarrow> noti_state" where
  "dismissNotification i st =
     dispatch (STOP_NOTIFICATION i)
       (st\<lparr> timers := (timers st)(i := None),
            notificationActions := (notificationActions st)(i := None) \<rparr>)"

text \<open>
  \<open>noti.id\<close> after lines 95 to 103: the id of the notification, or the next id of
  \<open>shortid\<close> when it has none.
\<close>

definition assigned_id :: "env \<Rightarrow> noti_state \<Rightarrow> notification \<Rightarrow> string" where
  "assigned_id env st n =
     (case noti_id n of None \<Rightarrow> shortid env (shortid_calls st) | Some i \<Rightarrow> i)"

text \<open>Line 105 to 107: the callbacks of the notification, in the order of its actions.\<close>

definition action_callbacks :: "notification \<Rightarrow> callback list" where
  "action_callbacks n = (case actions n of None \<Rightarrow> [] | Some acts \<Rightarrow> map action acts)"

text \<open>Lines 109 to 111: \<open>storeNoti\<close>, for the notification \<open>n\<close> filed under the id \<open>i\<close>.\<close>

definition storeNoti :: "env \<Rightarrow> string \<Rightarrow> notification \<Rightarrow> store_notification" where
  "storeNoti env i n =
     \<lparr> sn_id = i, sn_type = noti_type n, sn_message = message n, sn_replace = replace n,
       sn_actions = map title (case actions n of None \<Rightarrow> [] | Some acts \<Rightarrow> acts),
       sn_displayMS = displayMS n, sn_process = process_type env \<rparr>"

text \<open>
  \<open>addNotification(notification)(dispatch)\<close> (lines 92 to 124). The argument is a
  reference to the caller's object. \<open>{ ...notification }\<close> allocates the copy \<open>noti\<close>;
  the assignment to \<open>noti.id\<close> writes to the copy. \<open>clearTimeout\<close> removes a timeout
  from the event loop, \<open>setTimeout\<close> adds one under a new handle.
\<close>

definition addNotification :: "env \<Rightarrow> nat \<Rightarrow> noti_state \<Rightarrow> noti_state" where
  "addNotification env notification st =
     (case objs st notification of
        None \<Rightarrow> st
      | Some n \<Rightarrow>
          let noti = next_obj st;
              i = assigned_id env st n;
              s1 = st\<lparr> objs := (objs st)(noti \<mapsto> n), next_obj := Suc noti \<rparr>;
              s2 = (case noti_id n of
                      None \<Rightarrow>
                        s1\<lparr> objs := (objs s1)(noti \<mapsto> n\<lparr> noti_id := Some i \<rparr>),
                            shortid_calls := Suc (shortid_calls s1) \<rparr>
                    | Some _ \<Rightarrow>
                        (case timers s1 i of
                           None \<Rightarrow> s1
                         | Some h \<Rightarrow>
                             s1\<lparr> timeouts := (timeouts s1)(h := None),
                                 timers := (timers s1)(i := None),
                                 notificationActions := (notificationActions s1)(i := None) \<rparr>));
              s3 = s2\<lparr> notificationActions :=
                         (notificationActions s2)(i \<mapsto> action_callbacks n) \<rparr>;
              s4 = dispatch (ADD_NOTIFICATION (storeNoti env i n)) s3
          in (case displayMS n of
                None \<Rightarrow> s4
              | Some ms \<Rightarrow>
                  s4\<lparr> timers := (timers s4)(i \<mapsto> next_timer s4),
                      timeouts := (timeouts s4)(next_timer s4 \<mapsto> (i, ms)),
                      next_timer := Suc (next_timer s4) \<rparr>))"

text \<open>
  The timeout with handle \<open>h\<close> fires: it leaves the event loop, the promise of lines 115
  to 119 resolves and its \<open>then\<close> callback dispatches \<open>dismissNotification(noti.id)\<close>.
  A handle that is not live (cleared, or fired before) does nothing.
\<close>

definition timer_fires :: "nat \<Rightarrow> noti_state \<Rightarrow> noti_state" where
  "timer_fires h st =
     (case timeouts st h of
        None \<Rightarrow> st
      | Some (i, ms) \<Rightarrow> dismissNotification i (st\<lparr> timeouts := (timeouts st)(h := None) \<rparr>))"

subsection \<open>showDialog and closeDialog\<close>

text \<open>\<open>resolve(v)\<close> on the promise \<open>p\<close>: a promise that has resolved keeps its value.\<close>

definition resolve :: "nat \<Rightarrow> dialog_result \<Rightarrow> noti_state \<Rightarrow> noti_state" where
  "resolve p v st =
     (case promises st p of
        None \<Rightarrow> st\<lparr> promises := (promises st)(p \<mapsto> v) \<rparr>
      | Some _ \<Rightarrow> st)"

text \<open>
  \<open>showDialog(type, title, content, actions)(dispatch)\<close> (lines 157 to 175): the new
  promise, which it returns, the generated id, and the state afterwards.
\<close>

definition showDialog ::
  "env \<Rightarrow> string \<Rightarrow> string \<Rightarrow> string \<Rightarrow> dialog_action list \<Rightarrow> noti_state \<Rightarrow>
   nat \<times> string \<times> noti_state" where
  "showDialog env dtype dtitle dcontent acts st =
     (let p = next_promise st;
          s1 = st\<lparr> promises := (promises st)(p := None), next_promise := Suc p \<rparr>;
          i = shortid env (shortid_calls s1);
          s2 = s1\<lparr> shortid_calls := Suc (shortid_calls s1) \<rparr>;
          defaultAct = find (\<lambda>iter. default iter = Some True) acts;
          defaultLabel = (case defaultAct of None \<Rightarrow> None | Some a \<Rightarrow> Some (label a));
          s3 = dispatch (SHOW_MODAL_DIALOG
                 \<lparr> dialog_id = i, dialog_type = dtype, dialog_title = dtitle,
                   dialog_content = dcontent, defaultAction = defaultLabel,
                   dialog_actions = map label acts \<rparr>) s2;
          s4 = s3\<lparr> dialogCallbacks :=
                     (dialogCallbacks s3)(i \<mapsto> \<lparr> closure_actions = acts, closure_promise = p \<rparr>) \<rparr>
      in (p, i, s4))"

text \<open>
  The function stored at lines 166 to 172, called with \<open>(actionKey, input)\<close>. When no
  action has the label, \<open>action\<close> is \<open>undefined\<close> and reading \<open>action.action\<close> raises
  \<open>TypeError\<close>. \<open>truthy\<close> holds of a function and fails on \<open>undefined\<close>.
\<close>

definition call_dialog_closure ::
  "env \<Rightarrow> dialog_closure \<Rightarrow> string \<Rightarrow> dialog_input \<Rightarrow> noti_state \<Rightarrow> error option \<times> noti_state" where
  "call_dialog_closure env c actionKey inp st =
     (case find (\<lambda>iter. label iter = actionKey) (closure_actions c) of
        None \<Rightarrow> (Some TypeError, st)
      | Some a \<Rightarrow>
          (case dialog_callback a of
             None \<Rightarrow>
               (None, resolve (closure_promise c)
                        \<lparr> result_action = actionKey, result_input = inp \<rparr> st)
           | Some f \<Rightarrow>
               let s1 = st\<lparr> invoked := invoked st @ [(f, inp)] \<rparr> in
               if dialog_callback_throws env f inp then (Some (Thrown f), s1)
               else (None, resolve (closure_promise c)
                             \<lparr> result_action = actionKey, result_input = inp \<rparr> s1)))"

text \<open>
  \<open>closeDialog(id, actionKey, input)(dispatch)\<close> (lines 177 to 190). An entry of
  \<open>DialogCallbacks\<close> is a function or absent, never \<open>null\<close>, so the test of line 181
  passes and an absent entry is called, which raises \<open>TypeError\<close>. The \<open>catch\<close> block
  logs whatever the \<open>try\<close> block raised; the \<open>finally\<close> block deletes the entry.
\<close>

definition closeDialog ::
  "env \<Rightarrow> string \<Rightarrow> string \<Rightarrow> dialog_input \<Rightarrow> noti_state \<Rightarrow> noti_state" where
  "closeDialog env i actionKey inp st =
     (let s1 = dispatch (DISMISS_MODAL_DIALOG i) st;
          (err, s2) = (case dialogCallbacks s1 i of
                         None \<Rightarrow> (Some TypeError, s1)
                       | Some c \<Rightarrow>
                           call_dialog_closure env c actionKey inp
                             (s1\<lparr> called := called s1 @ [(i, actionKey, inp)] \<rparr>));
          s3 = (case err of
                  None \<Rightarrow> s2
                | Some _ \<Rightarrow>
                    s2\<lparr> logged := logged s2 @
                          [\<lparr> log_level = ''error'',
                             log_message = ''failed to invoke dialog callback'',
                             log_id = i, log_actionKey = actionKey \<rparr>] \<rparr>)
      in s3\<lparr> dialogCallbacks := (dialogCallbacks s3)(i := None) \<rparr>)"

subsection \<open>The module when it is loaded\<close>

text \<open>
  Lines 50 and 53 create both registries empty; \<open>DialogCallbacks.instance()\<close> starts as
  the empty object. Nothing is on the heap, in the event loop or in the traces yet.
\<close>

definition initial_state :: noti_state where
  "initial_state =
     \<lparr> objs = Map.empty, next_obj = 0, timers = Map.empty,
       notificationActions = Map.empty, timeouts = Map.empty, next_timer = 0,
       shortid_calls = 0, dialogCallbacks = Map.empty, promises = Map.empty,
       next_promise = 0, dispatched = [], called = [], invoked = [], logged = [] \<rparr>"

text \<open>
  An invariant of the dialog registry: every stored function closes over a promise that
  has been created.
\<close>

definition closures_allocated :: "noti_state \<Rightarrow> bool" where
  "closures_allocated st =
     (\<forall>j c. dialogCallbacks st j = Some c \<longrightarrow> closure_promise c < next_promise st)"

subsection \<open>Concrete inputs\<close>

text \<open>
  A renderer and a main process for the examples: \<open>shortid\<close> generates \<open>gen\<close>, \<open>gen+\<close>,
  \<open>gen++\<close> and so on; the callback \<open>ok\<close> calls the function it is handed once, every
  other notification callback never does; the dialog callback \<open>boom\<close> throws.
\<close>

definition renderer_env :: env where
  "renderer_env =
     \<lparr> process_type = ''renderer'',
       shortid = (\<lambda>k. ''gen'' @ replicate k (CHR ''+'')),
       notification_behaviour =
         (\<lambda>f. \<lparr> dismiss_calls = (if f = Callback ''ok'' then 1 else 0), throws = False \<rparr>),
       dialog_callback_throws = (\<lambda>f inp. f = Callback ''boom'') \<rparr>"

definition main_env :: env where
  "main_env = renderer_env\<lparr> process_type := ''browser'' \<rparr>"

text \<open>Two notifications with the id \<open>n1\<close>: one with a display time, one without.\<close>

definition timed_notification :: notification where
  "timed_notification =
     \<lparr> noti_id = Some ''n1'', noti_type = ''info'', message = ''working'',
       replace = None,
       actions = Some [\<lparr> title = ''Ok'', action = Callback ''ok'' \<rparr>,
                       \<lparr> title = ''Later'', action = Callback ''later'' \<rparr>],
       displayMS = Some 5000 \<rparr>"

definition untimed_notification :: notification where
  "untimed_notification =
     \<lparr> noti_id = Some ''n1'', noti_type = ''success'', message = ''done'',
       replace = None,
       actions = Some [\<lparr> title = ''Show'', action = Callback ''show'' \<rparr>],
       displayMS = None \<rparr>"

text \<open>The loaded module with both notification objects on the heap.\<close>

definition two_objects :: noti_state where
  "two_objects =
     initial_state\<lparr> objs := [0 \<mapsto> timed_notification, 1 \<mapsto> untimed_notification],
                    next_obj := 2 \<rparr>"

text \<open>A notification without an id, alone on the heap of the loaded module.\<close>

definition anonymous_notification :: notification where
  "anonymous_notification =
     \<lparr> noti_id = None, noti_type = ''warning'', message = ''careful'',
       replace = None, actions = None, displayMS = None \<rparr>"

definition one_object :: noti_state where
  "one_object = initial_state\<lparr> objs := [0 \<mapsto> anonymous_notification], next_obj := 1 \<rparr>"

text \<open>A process whose registry holds the two callbacks of \<open>n1\<close>.\<close>

definition registered :: noti_state where
  "registered =
     initial_state\<lparr> notificationActions := [''n1'' \<mapsto> [Callback ''ok'', Callback ''later'']] \<rparr>"

text \<open>A dialog with two actions: \<open>Ok\<close>, the default, whose callback throws, and \<open>Cancel\<close>.\<close>

definition two_buttons :: "dialog_action list" where
  "two_buttons =
     [\<lparr> label = ''Cancel'', default = None, dialog_callback = None \<rparr>,
      \<lparr> label = ''Ok'', default = Some True, dialog_callback = Some (Callback ''boom'') \<rparr>]"

text \<open>The loaded module after \<open>showDialog\<close> has shown that dialog.\<close>

definition dialog_shown :: noti_state where
  "dialog_shown =
     snd (snd (showDialog renderer_env ''question'' ''Confirm'' ''Proceed?'' two_buttons
       initial_state))"

text \<open>An extension manager with one installed extension that has a newer version.\<close>

definition one_update :: ext_world where
  "one_update =
     \<lparr> extensions =
         \<lparr> available = [\<lparr> name = ''a'', modId = Some 1, version = ''2.0'' \<rparr>],
           installed =
             [(''a'', \<lparr> ext_name = ''a'', ext_modId = Some 1, ext_version = ''1.0'' \<rparr>)] \<rparr>,
       reloadNecessary = False, events = [] \<rparr>"

text \<open>
  Two installed extensions with newer versions, and an environment where the install of
  the first fails at once.
\<close>

definition two_updates :: ext_world where
  "two_updates =
     \<lparr> extensions =
         \<lparr> available = [\<lparr> name = ''a'', modId = Some 1, version = ''2.0'' \<rparr>,
                        \<lparr> name = ''b'', modId = Some 2, version = ''2.0'' \<rparr>],
           installed =
             [(''a'', \<lparr> ext_name = ''a'', ext_modId = Some 1, ext_version = ''1.0'' \<rparr>),
              (''b'', \<lparr> ext_name = ''b'', ext_modId = Some 2, ext_version = ''1.0'' \<rparr>)] \<rparr>,
       reloadNecessary = False, events = [] \<rparr>"

definition failing_env :: ext_env where
  "failing_env =
     \<lparr> fetchAvailableExtensions = (\<lambda>cached force. Inl (Failure ''offline'')),
       downloadAndInstallExtension =
         (\<lambda>ext. if name ext = ''a'' then Fails (Failure ''disk full'') else Installed),
       sessionReducer = (\<lambda>a s. s) \<rparr>"

text \<open>An environment where the fetch rejects and every install resolves.\<close>

definition offline_env :: ext_env where
  "offline_env =
     \<lparr> fetchAvailableExtensions = (\<lambda>cached force. Inl (Failure ''offline'')),
       downloadAndInstallExtension = (\<lambda>ext. Installed),
       sessionReducer = (\<lambda>a s. s) \<rparr>"

section \<open>The version diff of checkForUpdates\<close>

text \<open>What one installed extension adds to the accumulator.\<close>

lemma updateable_step_append:
  "updateable_step avail prev ext = prev @ updateable_step avail [] ext"
  by (simp add: updateable_step_def split: option.splits)

lemma foldl_updateable_step:
  "foldl (updateable_step avail) acc exts =
     acc @ concat (map (updateable_step avail []) exts)"
proof (induction exts arbitrary: acc)
  case Nil
  show ?case by simp
next
  case (Cons e es)
  have "foldl (updateable_step avail) acc (e # es) =
          foldl (updateable_step avail) (updateable_step avail acc e) es"
    by simp
  also have "\<dots> = updateable_step avail acc e @ concat (map (updateable_step avail []) es)"
    by (rule Cons.IH)
  also have "\<dots> = acc @ concat (map (updateable_step avail []) (e # es))"
    using updateable_step_append [of avail acc e] by simp
  finally show ?case .
qed

lemma updateable_concat:
  "updateable s = concat (map (updateable_step (available s) []) (map snd (installed s)))"
  by (simp add: updateable_def foldl_updateable_step)

lemma set_updateable_step:
  "set (updateable_step avail [] ext) =
     {current. ext_modId ext \<noteq> None \<and>
        find (\<lambda>iter. modId iter = ext_modId ext) avail = Some current \<and>
        version current \<noteq> ext_version ext}"
proof (cases "ext_modId ext")
  case None
  then show ?thesis by (simp add: updateable_step_def)
next
  case (Some m)
  show ?thesis
  proof (cases "find (\<lambda>iter. modId iter = ext_modId ext) avail")
    case None
    then show ?thesis using Some by (simp add: updateable_step_def)
  next
    case (Some current)
    then show ?thesis using \<open>ext_modId ext = Some m\<close>
      by (auto simp add: updateable_step_def simp del: find_Some_iff)
  qed
qed


lemma set_updateable:
  "set (updateable s) =
     (\<Union>ext \<in> set (map snd (installed s)). set (updateable_step (available s) [] ext))"
  by (simp add: updateable_concat)

text \<open>
  With pairwise distinct mod ids in the available list, the first record with a mod id is
  the only one.
\<close>

lemma find_distinct_modId:
  assumes "distinct (map modId (filter (\<lambda>r. modId r \<noteq> None) avail))"
    and "r \<in> set avail" and "modId r = Some m"
  shows "find (\<lambda>iter. modId iter = Some m) avail = Some r"
  using assms
proof (induction avail)
  case Nil
  then show ?case by simp
next
  case (Cons a as)
  show ?case
  proof (cases "modId a = Some m")
    case True
    have "r = a"
    proof (rule ccontr)
      assume "r \<noteq> a"
      with Cons.prems(2) have "r \<in> set as" by simp
      with Cons.prems(3) have "Some m \<in> set (map modId (filter (\<lambda>r. modId r \<noteq> None) as))"
        by force
      with Cons.prems(1) True show False by simp
    qed
    with True show ?thesis by simp
  next
    case False
    with Cons.prems(2,3) have "r \<in> set as" by auto
    moreover from Cons.prems(1) have "distinct (map modId (filter (\<lambda>r. modId r \<noteq> None) as))"
      by (simp split: if_splits)
    ultimately have "find (\<lambda>iter. modId iter = Some m) as = Some r"
      using Cons.IH Cons.prems(3) by blast
    with False show ?thesis by simp
  qed
qed

text \<open>
  Where no two available records share a mod id, the list \<open>checkForUpdates\<close> computes
  has the elements the specification names.
\<close>

lemma updateable_spec_distinct:
  assumes "distinct (map modId (filter (\<lambda>r. modId r \<noteq> None) (available s)))"
  shows "set (updateable s) = set (updateable_spec s)"
proof -
  have "find (\<lambda>iter. modId iter = ext_modId ext) (available s) = Some r \<longleftrightarrow>
          r \<in> set (available s) \<and> modId r = ext_modId ext"
    if "ext_modId ext \<noteq> None" for ext r
  proof
    assume "find (\<lambda>iter. modId iter = ext_modId ext) (available s) = Some r"
    then show "r \<in> set (available s) \<and> modId r = ext_modId ext"
      by (auto simp: find_Some_iff)
  next
    assume a: "r \<in> set (available s) \<and> modId r = ext_modId ext"
    from that obtain m where m: "ext_modId ext = Some m" by auto
    with a assms show "find (\<lambda>iter. modId iter = ext_modId ext) (available s) = Some r"
      using find_distinct_modId [of "available s" r m] by simp
  qed
  then show ?thesis
    unfolding set_updateable set_updateable_step updateable_spec_def
    by (auto simp del: find_Some_iff)
qed

text \<open>
  Claim C1, as amended. For every store state, the updateable list of \<open>checkForUpdates\<close>
  has exactly these elements: the available records \<open>current\<close> for which some installed
  extension has a defined mod id, \<open>current\<close> is the first available record with that mod
  id, and the version of \<open>current\<close> differs from the installed version. An installed
  extension with an undefined mod id, with no available record of its mod id, or with the
  version of the first such record, adds nothing.
\<close>

theorem updateable_first_match:
  "set (updateable s) =
     {current. \<exists>ext \<in> set (map snd (installed s)).
        ext_modId ext \<noteq> None \<and>
        find (\<lambda>iter. modId iter = ext_modId ext) (available s) = Some current \<and>
        version current \<noteq> ext_version ext}"
  unfolding set_updateable set_updateable_step
  by (auto simp del: find_Some_iff)

text \<open>
  Claim C1 as the specification states it fails where two available records share a mod
  id: the installed extension has the version of the first, so nothing is updateable,
  while the second record has the mod id of an installed extension and another version.
\<close>

theorem updateable_spec_counterexample:
  "set (updateable
     \<lparr> available =
         [\<lparr> name = ''a'', modId = Some 1, version = ''1.0'' \<rparr>,
          \<lparr> name = ''a'', modId = Some 1, version = ''2.0'' \<rparr>],
       installed =
         [(''a'', \<lparr> ext_name = ''a'', ext_modId = Some 1, ext_version = ''1.0'' \<rparr>)] \<rparr>)
   \<noteq>
   set (updateable_spec
     \<lparr> available =
         [\<lparr> name = ''a'', modId = Some 1, version = ''1.0'' \<rparr>,
          \<lparr> name = ''a'', modId = Some 1, version = ''2.0'' \<rparr>],
       installed =
         [(''a'', \<lparr> ext_name = ''a'', ext_modId = Some 1, ext_version = ''1.0'' \<rparr>)] \<rparr>)"
  by (simp add: updateable_def updateable_spec_def updateable_step_def)

section \<open>The update run of checkForUpdates\<close>

text \<open>
  The mapper is called up to and including the first call that fails at once, and on
  every element when none does.
\<close>

lemma mapper_calls_find:
  "mapper_calls f xs =
     (case find (\<lambda>x. fails_at_once (f x)) xs of
        None \<Rightarrow> xs
      | Some x \<Rightarrow> takeWhile (\<lambda>x. \<not> fails_at_once (f x)) xs @ [x])"
  by (induction xs) (simp_all split: option.split)

text \<open>The promise of \<open>Promise.map\<close> resolves exactly when every install resolves.\<close>

lemma first_in_time_foldl:
  "foldl (\<lambda>best out.
              case out of
                FailsLater e t \<Rightarrow>
                  (case best of
                     None \<Rightarrow> Some (t, e)
                   | Some (t', e') \<Rightarrow> if t < t' then Some (t, e) else best)
              | _ \<Rightarrow> best) best outs = None \<longleftrightarrow>
   best = None \<and> list_all (\<lambda>out. case out of FailsLater e t \<Rightarrow> False | _ \<Rightarrow> True) outs"
proof (induction outs arbitrary: best)
  case Nil
  show ?case by simp
next
  case (Cons out outs)
  show ?case
    by (cases out; cases best) (auto simp add: Cons.IH split: if_splits)
qed

lemma first_in_time_None:
  "first_in_time outs = None \<longleftrightarrow>
   list_all (\<lambda>out. case out of FailsLater e t \<Rightarrow> False | _ \<Rightarrow> True) outs"
  by (simp add: first_in_time_def first_in_time_foldl)

lemma map_rejection_None:
  "map_rejection f xs = None \<longleftrightarrow> list_all (\<lambda>x. f x = Installed) xs"
proof (cases "find (\<lambda>x. fails_at_once (f x)) xs")
  case None
  then have no: "\<forall>x \<in> set xs. \<not> fails_at_once (f x)"
    by (simp add: find_None_iff)
  have "map_rejection f xs = None \<longleftrightarrow> first_in_time (map f xs) = None"
    using None by (simp add: map_rejection_def split: option.split)
  also have "\<dots> \<longleftrightarrow> (\<forall>x \<in> set xs. case f x of FailsLater e t \<Rightarrow> False | _ \<Rightarrow> True)"
    by (simp add: first_in_time_None list_all_iff)
  also have "\<dots> \<longleftrightarrow> (\<forall>x \<in> set xs. f x = Installed)"
  proof (rule ball_cong [OF refl])
    fix x assume "x \<in> set xs"
    with no have "\<not> fails_at_once (f x)" by blast
    then show "(case f x of FailsLater e t \<Rightarrow> False | _ \<Rightarrow> True) = (f x = Installed)"
      by (cases "f x") (simp_all add: fails_at_once_def)
  qed
  finally show ?thesis by (simp add: list_all_iff)
next
  case (Some x)
  then have x: "x \<in> set xs" "fails_at_once (f x)"
    unfolding find_Some_iff by (auto simp add: in_set_conv_nth)
  then obtain e where e: "f x = Fails e"
    by (auto simp add: fails_at_once_def split: install_outcome.splits)
  with Some have "map_rejection f xs = Some e"
    by (simp add: map_rejection_def del: find_Some_iff)
  moreover have "\<not> list_all (\<lambda>x. f x = Installed) xs"
  proof
    assume "list_all (\<lambda>x. f x = Installed) xs"
    with x(1) have "f x = Installed" by (simp add: list_all_iff)
    with e show False by simp
  qed
  ultimately show ?thesis by simp
qed

text \<open>
  Claim C5, as amended. With a non-empty updateable list, \<open>checkForUpdates\<close> first sends
  the info notification that carries the number of updateable extensions, then (after a
  log entry) calls \<open>downloadAndInstallExtension\<close> on the elements of the list in order:
  on every element when no call fails at once, and otherwise on the elements up to and
  including the first whose call throws or returns an already rejected promise. When
  every install resolves, and only then, it sets \<open>reloadNecessary\<close> and sends, last, the
  success notification with the action \<open>Restart now\<close>, and its promise resolves; when an
  install rejects, it does neither and its promise rejects. With an empty list the
  promise resolves and the world is unchanged: no notification, no install.
\<close>

theorem checkForUpdates_sequence:
  "(case checkForUpdates env w of
      (r, w') \<Rightarrow>
        let upd = updateable (extensions w);
            f = downloadAndInstallExtension env;
            installs =
              (case find (\<lambda>ext. fails_at_once (f ext)) upd of
                 None \<Rightarrow> upd
               | Some x \<Rightarrow> takeWhile (\<lambda>ext. \<not> fails_at_once (f ext)) upd @ [x]);
            all_installed = list_all (\<lambda>ext. f ext = Installed) upd
        in extensions w' = extensions w \<and>
           (if upd = [] then r = None \<and> w' = w
            else
              events w' = events w @
                [SendNotification (updates_info (length upd)),
                 LogInfo ''extensions can be updated''
                   (map (\<lambda>ext. name ext @ '' v'' @ version ext) upd)] @
                map DownloadAndInstallExtension installs @
                (if all_installed then [SendNotification updates_success] else []) \<and>
              reloadNecessary w' = (if all_installed then True else reloadNecessary w) \<and>
              (r = None) = all_installed)) \<and>
   noti_type (updates_info n) = ''info'' \<and> replace (updates_info n) = Some [(''count'', n)] \<and>
   noti_type updates_success = ''success'' \<and>
   map_option (map title) (actions updates_success) = Some [''Restart now'']"
proof -
  let ?upd = "updateable (extensions w)"
  let ?f = "downloadAndInstallExtension env"
  have notis: "noti_type (updates_info n) = ''info'' \<and>
      replace (updates_info n) = Some [(''count'', n)] \<and>
      noti_type updates_success = ''success'' \<and>
      map_option (map title) (actions updates_success) = Some [''Restart now'']"
    by (simp add: updates_info_def updates_success_def)
  show ?thesis
  proof (cases "?upd = []")
    case True
    with notis show ?thesis by (simp add: checkForUpdates_def)
  next
    case False
    show ?thesis
    proof (cases "map_rejection ?f ?upd")
      case None
      then have "list_all (\<lambda>ext. ?f ext = Installed) ?upd"
        by (simp add: map_rejection_None)
      with None False notis show ?thesis
        by (simp add: checkForUpdates_def Let_def mapper_calls_find del: find_Some_iff)
    next
      case (Some e)
      then have "\<not> list_all (\<lambda>ext. ?f ext = Installed) ?upd"
        using map_rejection_None [of ?f ?upd] by simp
      with Some False notis show ?thesis
        by (simp add: checkForUpdates_def Let_def mapper_calls_find del: find_Some_iff)
    qed
  qed
qed

theorem checkForUpdates_sequence_witness:
  "checkForUpdates offline_env one_update =
     (None,
      one_update\<lparr> reloadNecessary := True,
        events :=
          [SendNotification (updates_info 1),
           LogInfo ''extensions can be updated'' [''a v2.0''],
           DownloadAndInstallExtension \<lparr> name = ''a'', modId = Some 1, version = ''2.0'' \<rparr>,
           SendNotification updates_success] \<rparr>)"
  using checkForUpdates_sequence [where env = offline_env and w = one_update and n = 1]
  by (simp add: offline_env_def one_update_def updateable_def updateable_step_def
      fails_at_once_def split: prod.splits)

text \<open>
  Claim C5 as the specification states it fails where an install fails at once: two
  extensions are updateable, the call for the first returns an already rejected promise,
  and \<open>downloadAndInstallExtension\<close> is never called on the second.
\<close>

theorem install_not_started_counterexample:
  "updateable (extensions two_updates) =
     [\<lparr> name = ''a'', modId = Some 1, version = ''2.0'' \<rparr>,
      \<lparr> name = ''b'', modId = Some 2, version = ''2.0'' \<rparr>] \<and>
   events (snd (checkForUpdates failing_env two_updates)) =
     [SendNotification (updates_info 2),
      LogInfo ''extensions can be updated'' [''a v2.0'', ''b v2.0''],
      DownloadAndInstallExtension \<lparr> name = ''a'', modId = Some 1, version = ''2.0'' \<rparr>] \<and>
   DownloadAndInstallExtension \<lparr> name = ''b'', modId = Some 2, version = ''2.0'' \<rparr>
     \<notin> set (events (snd (checkForUpdates failing_env two_updates)))"
  by (simp add: checkForUpdates_def Let_def updateable_def updateable_step_def
      two_updates_def failing_env_def fails_at_once_def map_rejection_def updates_info_def)

section \<open>A failed fetch in updateAvailableExtensions\<close>

text \<open>
  Claim C8. When \<open>fetchAvailableExtensions\<close> rejects, \<open>updateAvailableExtensions\<close> shows
  the error notification, and the promise it returns rejects with the \<open>TypeError\<close> of
  \<open>getTime\<close> on the \<open>null\<close> time of the recovery value: nothing is dispatched to the
  store, and nothing else happens.
\<close>

theorem updateAvailableExtensions_fetch_rejects:
  "fetchAvailableExtensions env True force = Inl err \<Longrightarrow>
   updateAvailableExtensions env force w =
     (Some TypeError,
      w\<lparr> events := events w @
            [ShowErrorNotification ''Failed to fetch available extensions'' err] \<rparr>)"
  by (simp add: updateAvailableExtensions_def)

theorem updateAvailableExtensions_fetch_rejects_witness:
  "updateAvailableExtensions offline_env False one_update =
     (Some TypeError,
      one_update\<lparr> events :=
        [ShowErrorNotification ''Failed to fetch available extensions''
           (Failure ''offline'')] \<rparr>)"
  using updateAvailableExtensions_fetch_rejects
    [of offline_env False "Failure ''offline''" one_update]
  by (simp add: offline_env_def one_update_def)

section \<open>The callback registry\<close>

lemma addNotification_registry:
  assumes "objs st r = Some n"
  shows "notificationActions (addNotification env r st) =
           (notificationActions st)(assigned_id env st n \<mapsto> action_callbacks n)"
  using assms
  by (simp add: addNotification_def Let_def dispatch_def assigned_id_def
      split: option.split)



section \<open>Firing a notification action\<close>

text \<open>
  Claim C3, as amended. For every notification id that has an entry in the callback
  registry and every action index, \<open>fireNotificationAction\<close> in the process that owns the
  callbacks calls the callback at that index of the entry, handing it \<open>dismiss\<close> itself;
  when the entry has no callback at that index, it calls nothing and returns normally.
\<close>

theorem fire_same_process:
  "notificationActions st notiId = Some funcs \<Longrightarrow>
   fireNotificationAction env ipcRenderer st notiId (process_type env) act dismiss u =
     (case array_get funcs act of
        None \<Rightarrow> \<lparr> fire_ui = u, fire_events = [], fire_error = None \<rparr>
      | Some func \<Rightarrow>
          \<lparr> fire_ui = fst (run_callback (notification_behaviour env func) dismiss u),
            fire_events = [Invoked func],
            fire_error = (if throws (notification_behaviour env func)
                          then Some (Thrown func) else None) \<rparr>)"
  by (simp add: fireNotificationAction_def run_callback_def split: option.split)

theorem fire_same_process_witness:
  "fireNotificationAction renderer_env (Some (\<lambda>j a. False)) registered ''n1'' ''renderer'' 0 Suc 0 =
     \<lparr> fire_ui = 1, fire_events = [Invoked (Callback ''ok'')], fire_error = None \<rparr> \<and>
   fireNotificationAction renderer_env (Some (\<lambda>j a. False)) registered ''n1'' ''renderer'' 2 Suc 0 =
     \<lparr> fire_ui = 0, fire_events = [], fire_error = None \<rparr>"
  using fire_same_process [of registered "''n1''" "[Callback ''ok'', Callback ''later'']"
      renderer_env "Some (\<lambda>j a. False)" 0 Suc 0]
    fire_same_process [of registered "''n1''" "[Callback ''ok'', Callback ''later'']"
      renderer_env "Some (\<lambda>j a. False)" 2 Suc 0]
  by (simp add: registered_def renderer_env_def array_get_def run_callback_def)

text \<open>
  Claim C3 as the specification states it fails for an id with no entry in the registry:
  no callback is registered at index 0, and the call raises \<open>TypeError\<close>.
\<close>

theorem fire_unregistered_counterexample:
  "fire_error
     (fireNotificationAction renderer_env (Some (\<lambda>j a. False)) initial_state ''n1'' ''renderer'' 0
        Suc 0) = Some TypeError \<and>
   notificationActions initial_state ''n1'' = None"
  by (simp add: fireNotificationAction_def renderer_env_def initial_state_def)

text \<open>
  The handler assigns \<open>false\<close> to \<open>returnValue\<close> before it looks for the callback, and
  that first assignment is the reply: whatever the callback does, \<open>sendSync\<close> returns
  \<open>false\<close>.
\<close>

lemma reply_set_returnValue:
  "reply e = Some v \<Longrightarrow> reply (set_returnValue w e) = Some v"
  by (simp add: set_returnValue_def)

lemma reply_funpow:
  "reply e = Some v \<Longrightarrow> reply ((set_returnValue w ^^ k) e) = Some v"
  by (induction k) (simp_all add: reply_set_returnValue)

lemma handler_reply:
  "reply (fst (on_fire_notification_action menv main notiId act)) = Some False"
proof -
  have first: "reply (set_returnValue False \<lparr> assigned = [], reply = None \<rparr>) = Some False"
    by (simp add: set_returnValue_def)
  show ?thesis
  proof (cases "notificationActions main notiId")
    case None
    then show ?thesis
      by (simp add: on_fire_notification_action_def Let_def first)
  next
    case (Some funcs)
    then show ?thesis
      by (cases "array_get funcs act")
        (simp_all add: on_fire_notification_action_def Let_def run_callback_def
          reply_funpow [OF first] first)
  qed
qed

lemma ipc_sendSync_false: "\<not> ipc_sendSync menv main notiId act"
  by (simp add: ipc_sendSync_def handler_reply)

text \<open>
  \<open>fireNotificationAction\<close> sends the IPC message exactly when the notification's
  process is not the type of the current process and \<open>ipcRenderer\<close> is defined; on that
  path, in a process with Electron's \<open>ipcRenderer\<close>, it never calls \<open>dismiss\<close>.
\<close>

lemma fire_ipc_sent:
  "(\<exists>j a. IpcSendSync j a \<in>
       set (fire_events (fireNotificationAction env ipcRenderer st notiId notiProcess act dismiss u))) =
   (notiProcess \<noteq> process_type env \<and> ipcRenderer \<noteq> None)"
  by (simp add: fireNotificationAction_def Let_def run_callback_def split: option.split)

lemma fire_ipc_never_dismisses:
  "notiProcess \<noteq> process_type env \<Longrightarrow>
   fire_ui (fireNotificationAction env (ipcRenderer_of env menv main) st notiId notiProcess act
     dismiss u) = u"
  by (simp add: fireNotificationAction_def Let_def ipcRenderer_of_def ipc_sendSync_false)

text \<open>
  Claim C4, on the run where it fails. The renderer fires action 0 of the notification
  \<open>n1\<close>, which the main process owns. The handler in the main process calls the
  callback \<open>ok\<close>, which calls the function it is handed: \<open>true\<close> is assigned to
  \<open>returnValue\<close>. The reply was sent at the first assignment, \<open>false\<close>, so the renderer
  does not call its \<open>dismiss\<close>.
\<close>

theorem ipc_reply_sent_before_callback:
  "on_fire_notification_action main_env registered ''n1'' 0 =
     (\<lparr> assigned = [False, True], reply = Some False \<rparr>, [Invoked (Callback ''ok'')], None) \<and>
   fireNotificationAction renderer_env (ipcRenderer_of renderer_env main_env registered)
     initial_state ''n1'' ''browser'' 0 Suc 0 =
     \<lparr> fire_ui = 0, fire_events = [IpcSendSync ''n1'' 0], fire_error = None \<rparr>"
  by (simp add: on_fire_notification_action_def fireNotificationAction_def ipcRenderer_of_def
      ipc_sendSync_def Let_def run_callback_def set_returnValue_def array_get_def
      registered_def initial_state_def renderer_env_def main_env_def)

section \<open>Timers and automatic dismissal\<close>

text \<open>
  A notification with a display time gets a timeout, filed under its id; when the timeout
  fires, the id is dismissed: both registry entries go and the stop action is dispatched.
\<close>

lemma addNotification_schedules:
  assumes "objs st r = Some n" and "displayMS n = Some ms"
  shows "timers (addNotification env r st) (assigned_id env st n) = Some (next_timer st) \<and>
         timeouts (addNotification env r st) (next_timer st) = Some (assigned_id env st n, ms)"
  using assms
  by (simp add: addNotification_def Let_def dispatch_def assigned_id_def split: option.split)

lemma timer_fires_dismisses:
  assumes "timeouts st h = Some (i, ms)"
  shows "timer_fires h st = dismissNotification i (st\<lparr> timeouts := (timeouts st)(h := None) \<rparr>)"
    and "timers (timer_fires h st) i = None"
    and "notificationActions (timer_fires h st) i = None"
    and "dispatched (timer_fires h st) = dispatched st @ [STOP_NOTIFICATION i]"
  using assms by (simp_all add: timer_fires_def dismissNotification_def dispatch_def)

text \<open>Adding a notification without a display time creates no timeout.\<close>

lemma addNotification_no_timer:
  assumes "objs st r = Some n" and "displayMS n = None"
  shows "next_timer (addNotification env r st) = next_timer st \<and>
         timeouts (addNotification env r st) \<subseteq>\<^sub>m timeouts st"
  using assms
  by (simp add: addNotification_def Let_def dispatch_def assigned_id_def map_le_def
      split: option.split)

text \<open>
  \<open>dismissNotification\<close> deletes the entry of the timer registry and leaves the timeout
  itself in the event loop, where \<open>addNotification\<close> calls \<open>clearTimeout\<close> first.
\<close>

lemma dismissNotification_timeouts:
  "timeouts (dismissNotification i st) = timeouts st"
  by (simp add: dismissNotification_def dispatch_def)

text \<open>
  Claim C6, on the run where it fails. The notification \<open>n1\<close> is added with a display time
  of 5000 ms, dismissed by hand, and added again without a display time. The second
  \<open>addNotification\<close> finds no timer under \<open>n1\<close> and so clears nothing; the timeout of
  the first is still live, and when it fires it dismisses \<open>n1\<close>: the callbacks of the
  notification without a display time are deleted and its stop action is dispatched.
\<close>

theorem stale_timer_dismisses_replacement:
  "(let s1 = addNotification renderer_env 0 two_objects;
        s2 = dismissNotification ''n1'' s1;
        s3 = addNotification renderer_env 1 s2;
        s4 = timer_fires 0 s3
    in displayMS untimed_notification = None \<and>
       timers s1 ''n1'' = Some 0 \<and>
       timers s3 ''n1'' = None \<and>
       timeouts s3 0 = Some (''n1'', 5000) \<and>
       notificationActions s3 ''n1'' = Some [Callback ''show''] \<and>
       notificationActions s4 ''n1'' = None \<and>
       dispatched s4 =
         [ADD_NOTIFICATION (storeNoti renderer_env ''n1'' timed_notification),
          STOP_NOTIFICATION ''n1'',
          ADD_NOTIFICATION (storeNoti renderer_env ''n1'' untimed_notification),
          STOP_NOTIFICATION ''n1''])"
  by (simp add: Let_def addNotification_def dismissNotification_def timer_fires_def
      dispatch_def assigned_id_def action_callbacks_def two_objects_def initial_state_def
      timed_notification_def untimed_notification_def)

section \<open>What addNotification puts into the store\<close>

lemma addNotification_dispatched:
  assumes "objs st r = Some n"
  shows "dispatched (addNotification env r st) =
           dispatched st @ [ADD_NOTIFICATION (storeNoti env (assigned_id env st n) n)]"
  using assms
  by (simp add: addNotification_def Let_def dispatch_def assigned_id_def split: option.split)

lemma addNotification_objs:
  assumes "objs st r = Some n"
  shows "objs (addNotification env r st) =
           (objs st)(next_obj st \<mapsto> n\<lparr> noti_id := Some (assigned_id env st n) \<rparr>)"
  using assms
  by (auto simp add: addNotification_def Let_def dispatch_def assigned_id_def
      split: option.split)

lemma addNotification_shortid_calls:
  assumes "objs st r = Some n"
  shows "shortid_calls (addNotification env r st) =
           (case noti_id n of None \<Rightarrow> Suc (shortid_calls st) | Some j \<Rightarrow> shortid_calls st)"
  using assms
  by (simp add: addNotification_def Let_def dispatch_def assigned_id_def split: option.split)

lemma addNotification_timeouts:
  assumes "objs st r = Some n"
  shows "timeouts (addNotification env r st) =
           (let cleared = (case noti_id n of
                             None \<Rightarrow> timeouts st
                           | Some j \<Rightarrow>
                               (case timers st j of
                                  None \<Rightarrow> timeouts st
                                | Some h \<Rightarrow> (timeouts st)(h := None)))
            in case displayMS n of
                 None \<Rightarrow> cleared
               | Some ms \<Rightarrow> cleared(next_timer st \<mapsto> (assigned_id env st n, ms)))"
  using assms
  by (simp add: addNotification_def Let_def dispatch_def assigned_id_def split: option.split)

text \<open>
  The notification \<open>addNotification\<close> dispatches carries, for its actions, their titles
  and nothing else (the store's notification has no field for a callback), and the type
  of the process that added it. Its id is the notification's id, or the next id of
  \<open>shortid\<close> when the notification has none. The caller's object is unchanged. When the
  id has an entry in the timer registry, the timeout of that entry is cleared (the only
  timeout added is the new notification's own, under a new handle) and the callback
  registry holds the new callbacks alone.
\<close>

lemma addNotification_store:
  "objs st r = Some n \<Longrightarrow> r < next_obj st \<Longrightarrow>
   (let s' = addNotification env r st; i = assigned_id env st n
    in dispatched s' = dispatched st @
         [ADD_NOTIFICATION
            \<lparr> sn_id = i, sn_type = noti_type n, sn_message = message n,
              sn_replace = replace n,
              sn_actions = (case actions n of None \<Rightarrow> [] | Some acts \<Rightarrow> map title acts),
              sn_displayMS = displayMS n, sn_process = process_type env \<rparr>] \<and>
       objs s' r = Some n \<and>
       (case noti_id n of
          None \<Rightarrow> i = shortid env (shortid_calls st) \<and>
                  shortid_calls s' = Suc (shortid_calls st)
        | Some j \<Rightarrow>
            i = j \<and> shortid_calls s' = shortid_calls st \<and>
            (case timers st j of
               None \<Rightarrow> True
             | Some h \<Rightarrow>
                 notificationActions s' j = Some (action_callbacks n) \<and>
                 timeouts s' =
                   (case displayMS n of
                      None \<Rightarrow> (timeouts st)(h := None)
                    | Some ms \<Rightarrow> ((timeouts st)(h := None))(next_timer st \<mapsto> (j, ms))))))"
proof -
  assume obj: "objs st r = Some n" and alloc: "r < next_obj st"
  have d: "dispatched (addNotification env r st) = dispatched st @
         [ADD_NOTIFICATION
            \<lparr> sn_id = assigned_id env st n, sn_type = noti_type n, sn_message = message n,
              sn_replace = replace n,
              sn_actions = (case actions n of None \<Rightarrow> [] | Some acts \<Rightarrow> map title acts),
              sn_displayMS = displayMS n, sn_process = process_type env \<rparr>]"
    by (simp add: addNotification_dispatched [OF obj] storeNoti_def split: option.split)
  have o: "objs (addNotification env r st) r = Some n"
    using alloc by (simp add: addNotification_objs [OF obj] obj)
  have rest: "(case noti_id n of
          None \<Rightarrow> assigned_id env st n = shortid env (shortid_calls st) \<and>
                  shortid_calls (addNotification env r st) = Suc (shortid_calls st)
        | Some j \<Rightarrow>
            assigned_id env st n = j \<and>
            shortid_calls (addNotification env r st) = shortid_calls st \<and>
            (case timers st j of
               None \<Rightarrow> True
             | Some h \<Rightarrow>
                 notificationActions (addNotification env r st) j = Some (action_callbacks n) \<and>
                 timeouts (addNotification env r st) =
                   (case displayMS n of
                      None \<Rightarrow> (timeouts st)(h := None)
                    | Some ms \<Rightarrow> ((timeouts st)(h := None))(next_timer st \<mapsto> (j, ms)))))"
    by (simp add: addNotification_shortid_calls [OF obj] addNotification_timeouts [OF obj]
        addNotification_registry [OF obj] assigned_id_def Let_def split: option.split)
  from d o rest show ?thesis by (simp only: Let_def simp_thms)
qed

lemma first_added:
  "objs (addNotification renderer_env 0 two_objects) 1 = Some untimed_notification \<and>
   next_obj (addNotification renderer_env 0 two_objects) = 3 \<and>
   timers (addNotification renderer_env 0 two_objects) ''n1'' = Some 0 \<and>
   timeouts (addNotification renderer_env 0 two_objects) = [0 \<mapsto> (''n1'', 5000)] \<and>
   notificationActions (addNotification renderer_env 0 two_objects) ''n1'' =
     Some [Callback ''ok'', Callback ''later'']"
  by (simp add: addNotification_def Let_def dispatch_def assigned_id_def action_callbacks_def
      two_objects_def initial_state_def timed_notification_def)

lemma addNotification_store_example:
  "timeouts (addNotification renderer_env 0 two_objects) 0 = Some (''n1'', 5000) \<and>
   (let s1 = addNotification renderer_env 0 two_objects;
        s2 = addNotification renderer_env 1 s1
    in timeouts s2 0 = None \<and>
       notificationActions s2 ''n1'' = Some [Callback ''show''] \<and>
       objs s2 1 = Some untimed_notification \<and>
       dispatched s2 = dispatched s1 @
         [ADD_NOTIFICATION
            \<lparr> sn_id = ''n1'', sn_type = ''success'', sn_message = ''done'',
              sn_replace = None, sn_actions = [''Show''], sn_displayMS = None,
              sn_process = ''renderer'' \<rparr>]) \<and>
   dispatched (addNotification renderer_env 0 one_object) =
     [ADD_NOTIFICATION
        \<lparr> sn_id = ''gen'', sn_type = ''warning'', sn_message = ''careful'',
          sn_replace = None, sn_actions = [], sn_displayMS = None,
          sn_process = ''renderer'' \<rparr>] \<and>
   objs (addNotification renderer_env 0 one_object) 0 = Some anonymous_notification"
proof -
  let ?s1 = "addNotification renderer_env 0 two_objects"
  from first_added have obj: "objs ?s1 1 = Some untimed_notification"
    and alloc: "1 < next_obj ?s1" by simp_all
  have readd: "timeouts (addNotification renderer_env 1 ?s1) 0 = None \<and>
       notificationActions (addNotification renderer_env 1 ?s1) ''n1'' = Some [Callback ''show''] \<and>
       objs (addNotification renderer_env 1 ?s1) 1 = Some untimed_notification \<and>
       dispatched (addNotification renderer_env 1 ?s1) = dispatched ?s1 @
         [ADD_NOTIFICATION
            \<lparr> sn_id = ''n1'', sn_type = ''success'', sn_message = ''done'',
              sn_replace = None, sn_actions = [''Show''], sn_displayMS = None,
              sn_process = ''renderer'' \<rparr>]"
    using addNotification_store [OF obj alloc, of renderer_env] first_added
    by (simp add: Let_def assigned_id_def action_callbacks_def untimed_notification_def
        renderer_env_def)
  have obj0: "objs one_object 0 = Some anonymous_notification"
    and alloc0: "0 < next_obj one_object"
    by (simp_all add: one_object_def initial_state_def)
  have fresh: "dispatched (addNotification renderer_env 0 one_object) =
     [ADD_NOTIFICATION
        \<lparr> sn_id = ''gen'', sn_type = ''warning'', sn_message = ''careful'',
          sn_replace = None, sn_actions = [], sn_displayMS = None,
          sn_process = ''renderer'' \<rparr>] \<and>
   objs (addNotification renderer_env 0 one_object) 0 = Some anonymous_notification"
    using addNotification_store [OF obj0 alloc0, of renderer_env]
    by (simp add: Let_def assigned_id_def anonymous_notification_def renderer_env_def
        one_object_def initial_state_def)
  from first_added have "timeouts ?s1 0 = Some (''n1'', 5000)" by simp
  with readd fresh show ?thesis by (simp only: Let_def simp_thms)
qed

text \<open>
  Claim C10, on the run where it fails. The notification \<open>n1\<close> is added with a display
  time of 5000 ms and dismissed by hand: \<open>dismissNotification\<close> deletes the entry of the
  timer registry and does not clear the timeout, so \<open>n1\<close> still has a live timeout. When
  \<open>n1\<close> is added again, \<open>addNotification\<close> finds no entry and cancels nothing: the
  timeout of the first notification is still live afterwards.
\<close>

theorem readd_after_dismiss_cancels_nothing:
  "(let s1 = addNotification renderer_env 0 two_objects;
        s2 = dismissNotification ''n1'' s1;
        s3 = addNotification renderer_env 1 s2
    in timeouts s1 0 = Some (''n1'', 5000) \<and>
       timers s2 ''n1'' = None \<and>
       timeouts s2 0 = Some (''n1'', 5000) \<and>
       timeouts s3 0 = Some (''n1'', 5000) \<and>
       notificationActions s3 ''n1'' = Some [Callback ''show''])"
  by (simp add: Let_def addNotification_def dismissNotification_def
      dispatch_def assigned_id_def action_callbacks_def two_objects_def initial_state_def
      timed_notification_def untimed_notification_def)

section \<open>Dialogs\<close>

lemma promises_dispatch [simp]: "promises (dispatch a st) = promises st"
  by (simp add: dispatch_def)

lemma dialogCallbacks_dispatch [simp]: "dialogCallbacks (dispatch a st) = dialogCallbacks st"
  by (simp add: dispatch_def)





lemma showDialog_state:
  assumes "showDialog env dtype dtitle dcontent acts st = (p, i, s1)"
  shows "p = next_promise st"
    and "i = shortid env (shortid_calls st)"
    and "promises s1 = (promises st)(p := None)"
    and "dialogCallbacks s1 =
           (dialogCallbacks st)(i \<mapsto> \<lparr> closure_actions = acts, closure_promise = p \<rparr>)"
    and "dispatched s1 = dispatched st @
           [SHOW_MODAL_DIALOG
              \<lparr> dialog_id = i, dialog_type = dtype, dialog_title = dtitle,
                dialog_content = dcontent,
                defaultAction = map_option label (find (\<lambda>a. default a = Some True) acts),
                dialog_actions = map label acts \<rparr>]"
    and "next_promise s1 = Suc (next_promise st)"
  using assms
  by (auto simp add: showDialog_def Let_def dispatch_def map_option_case)


lemma next_promise_call:
  "next_promise (snd (call_dialog_closure env c key inp st)) = next_promise st"
  by (simp add: call_dialog_closure_def Let_def resolve_def split: option.split)

lemma dialogCallbacks_call:
  "dialogCallbacks (snd (call_dialog_closure env c key inp st)) = dialogCallbacks st"
  by (simp add: call_dialog_closure_def Let_def resolve_def split: option.split)

lemma closures_allocated_showDialog:
  assumes "showDialog env dtype dtitle dcontent acts st = (p, i, s1)"
    and "closures_allocated st"
  shows "closures_allocated s1"
  using assms(2) showDialog_state(1,4,6) [OF assms(1)]
  by (auto simp add: closures_allocated_def less_Suc_eq)

lemma closures_allocated_closeDialog:
  assumes "closures_allocated st"
  shows "closures_allocated (closeDialog env i key inp st)"
proof -
  have "next_promise (closeDialog env i key inp st) = next_promise st"
    by (simp add: closeDialog_def Let_def split_beta next_promise_call dispatch_def
        split: option.split)
  moreover have "dialogCallbacks (closeDialog env i key inp st) = (dialogCallbacks st)(i := None)"
    by (simp add: closeDialog_def Let_def split_beta dialogCallbacks_call dispatch_def
        split: option.split)
  ultimately show ?thesis
    using assms by (simp add: closures_allocated_def)
qed

lemma call_dialog_closure_frame:
  "dialogCallbacks (snd (call_dialog_closure env c key inp st)) = dialogCallbacks st \<and>
   dispatched (snd (call_dialog_closure env c key inp st)) = dispatched st \<and>
   called (snd (call_dialog_closure env c key inp st)) = called st \<and>
   logged (snd (call_dialog_closure env c key inp st)) = logged st"
  by (simp add: call_dialog_closure_def Let_def resolve_def split: option.split)

lemma closeDialog_absent:
  "dialogCallbacks st i = None \<Longrightarrow>
   closeDialog env i key inp st =
     st\<lparr> dispatched := dispatched st @ [DISMISS_MODAL_DIALOG i],
         logged := logged st @
           [\<lparr> log_level = ''error'', log_message = ''failed to invoke dialog callback'',
              log_id = i, log_actionKey = key \<rparr>] \<rparr>"
proof -
  assume absent: "dialogCallbacks st i = None"
  then have "(dialogCallbacks st)(i := None) = dialogCallbacks st"
    by (simp add: fun_upd_idem)
  with absent show ?thesis
    by (simp add: closeDialog_def Let_def dispatch_def)
qed

lemma closeDialog_first:
  "dispatched (closeDialog env i key inp st) = dispatched st @ [DISMISS_MODAL_DIALOG i] \<and>
   dialogCallbacks (closeDialog env i key inp st) = (dialogCallbacks st)(i := None) \<and>
   called (closeDialog env i key inp st) =
     called st @ (case dialogCallbacks st i of None \<Rightarrow> [] | Some c \<Rightarrow> [(i, key, inp)]) \<and>
   logged (closeDialog env i key inp st) =
     logged st @
       (case (case dialogCallbacks st i of
                None \<Rightarrow> Some TypeError
              | Some c \<Rightarrow>
                  fst (call_dialog_closure env c key inp
                    (st\<lparr> dispatched := dispatched st @ [DISMISS_MODAL_DIALOG i],
                        called := called st @ [(i, key, inp)] \<rparr>))) of
          None \<Rightarrow> []
        | Some e \<Rightarrow>
            [\<lparr> log_level = ''error'', log_message = ''failed to invoke dialog callback'',
               log_id = i, log_actionKey = key \<rparr>])"
  by (simp add: closeDialog_def Let_def split_beta dispatch_def call_dialog_closure_frame
      split: option.split)








text \<open>
  Claim C9. Every \<open>closeDialog\<close> dispatches the dismissal and leaves no entry for the
  id in \<open>DialogCallbacks\<close>, whether the stored function returned or raised; what it
  raised is logged and goes no further. The stored function is called once when the id
  has an entry and not at all otherwise, so a second \<open>closeDialog\<close> with the id calls
  nothing: it dispatches the dismissal, logs the failed call and changes nothing else.
\<close>

theorem closeDialog_once:
  "(let s1 = closeDialog env i key inp st;
        s2 = closeDialog env i key' inp' s1
    in dispatched s1 = dispatched st @ [DISMISS_MODAL_DIALOG i] \<and>
       dialogCallbacks s1 = (dialogCallbacks st)(i := None) \<and>
       called s1 =
         called st @ (case dialogCallbacks st i of None \<Rightarrow> [] | Some c \<Rightarrow> [(i, key, inp)]) \<and>
       logged s1 =
         logged st @
           (case (case dialogCallbacks st i of
                    None \<Rightarrow> Some TypeError
                  | Some c \<Rightarrow>
                      fst (call_dialog_closure env c key inp
                        (st\<lparr> dispatched := dispatched st @ [DISMISS_MODAL_DIALOG i],
                            called := called st @ [(i, key, inp)] \<rparr>))) of
              None \<Rightarrow> []
            | Some e \<Rightarrow>
                [\<lparr> log_level = ''error'', log_message = ''failed to invoke dialog callback'',
                   log_id = i, log_actionKey = key \<rparr>]) \<and>
       s2 = s1\<lparr> dispatched := dispatched s1 @ [DISMISS_MODAL_DIALOG i],
               logged := logged s1 @
                 [\<lparr> log_level = ''error'', log_message = ''failed to invoke dialog callback'',
                    log_id = i, log_actionKey = key' \<rparr>] \<rparr>)"
proof -
  have "dialogCallbacks (closeDialog env i key inp st) i = None"
    using closeDialog_first [of env i key inp st] by simp
  then have "closeDialog env i key' inp' (closeDialog env i key inp st) =
     (closeDialog env i key inp st)
       \<lparr> dispatched := dispatched (closeDialog env i key inp st) @ [DISMISS_MODAL_DIALOG i],
         logged := logged (closeDialog env i key inp st) @
           [\<lparr> log_level = ''error'', log_message = ''failed to invoke dialog callback'',
              log_id = i, log_actionKey = key' \<rparr>] \<rparr>"
    by (rule closeDialog_absent)
  with closeDialog_first [of env i key inp st] show ?thesis
    by (simp only: Let_def simp_thms)
qed

theorem closeDialog_once_witness:
  "called (closeDialog renderer_env ''gen'' ''Ok'' None dialog_shown) = [(''gen'', ''Ok'', None)] \<and>
   dialogCallbacks (closeDialog renderer_env ''gen'' ''Ok'' None dialog_shown) ''gen'' = None \<and>
   logged (closeDialog renderer_env ''gen'' ''Ok'' None dialog_shown) =
     [\<lparr> log_level = ''error'', log_message = ''failed to invoke dialog callback'',
        log_id = ''gen'', log_actionKey = ''Ok'' \<rparr>] \<and>
   called (closeDialog renderer_env ''gen'' ''Ok'' None
            (closeDialog renderer_env ''gen'' ''Ok'' None dialog_shown)) =
     [(''gen'', ''Ok'', None)]"
  using closeDialog_once [of renderer_env "''gen''" "''Ok''" None dialog_shown "''Ok''" None]
  by (simp add: Let_def dialog_shown_def showDialog_def dispatch_def initial_state_def
      renderer_env_def two_buttons_def call_dialog_closure_def)

end
